theory Spec2Isabelle
  imports Main "HOL-Library.AList"
begin

section \<open>Python values\<close>

text \<open>
  The values that \<^verbatim>\<open>bonus_auto_persist.py\<close> moves around: what an attribute of an
  instance holds, what \<^verbatim>\<open>json.load\<close> returns and what \<^verbatim>\<open>json.dump\<close> is handed.
  A \<^verbatim>\<open>dict\<close> is an association list in insertion order whose keys are strings (the
  only keys the program itself ever creates); \<open>PObj r\<close> is an object of any other class,
  one that defines none of \<^verbatim>\<open>__str__\<close>, \<^verbatim>\<open>__bool__\<close>, \<^verbatim>\<open>__len__\<close>, with \<open>r\<close> the text
  of its \<^verbatim>\<open>repr\<close>. Floats are left out. A string is a list of code points below 256.
\<close>

datatype pyval =
    PNone
  | PBool bool
  | PInt int
  | PStr string
  | PList "pyval list"
  | PTuple "pyval list"
  | PDict "(string \<times> pyval) list"
  | PObj string

datatype error = JSONDecodeError | AttributeError | TypeError | OSError

text \<open>Truth value of an object, as \<^verbatim>\<open>if x and y:\<close> tests it.\<close>

fun truthy :: "pyval \<Rightarrow> bool" where
  "truthy PNone = False"
| "truthy (PBool b) = b"
| "truthy (PInt i) = (i \<noteq> 0)"
| "truthy (PStr s) = (s \<noteq> [])"
| "truthy (PList xs) = (xs \<noteq> [])"
| "truthy (PTuple xs) = (xs \<noteq> [])"
| "truthy (PDict kvs) = (kvs \<noteq> [])"
| "truthy (PObj r) = True"

subsection \<open>The builtin \<^verbatim>\<open>str\<close>\<close>

fun digits :: "nat \<Rightarrow> string" where
  "digits n =
     (if n < 10 then [''0123456789'' ! n]
      else digits (n div 10) @ [''0123456789'' ! (n mod 10)])"

declare digits.simps [simp del]

definition str_int :: "int \<Rightarrow> string" where
  "str_int i = (if i < 0 then CHR ''-'' # digits (nat (- i)) else digits (nat i))"

definition hex2 :: "nat \<Rightarrow> string" where
  "hex2 n = [''0123456789abcdef'' ! (n div 16), ''0123456789abcdef'' ! (n mod 16)]"

definition printable :: "char \<Rightarrow> bool" where
  "printable c =
     (let n = (of_char c :: nat)
      in (32 \<le> n \<and> n < 127) \<or> (161 \<le> n \<and> n \<noteq> 173))"

definition repr_char :: "char \<Rightarrow> char \<Rightarrow> string" where
  "repr_char quote c =
     (if c = quote \<or> c = CHR 0x5C then [CHR 0x5C, c]
      else if c = CHR 0x09 then [CHR 0x5C, CHR ''t'']
      else if c = CHR 0x0A then [CHR 0x5C, CHR ''n'']
      else if c = CHR 0x0D then [CHR 0x5C, CHR ''r'']
      else if printable c then [c]
      else CHR 0x5C # CHR ''x'' # hex2 (of_char c))"

definition repr_str :: "string \<Rightarrow> string" where
  "repr_str s =
     (let quote = (if CHR 0x27 \<in> set s \<and> CHR 0x22 \<notin> set s then CHR 0x22 else CHR 0x27)
      in quote # concat (map (repr_char quote) s) @ [quote])"

fun join :: "string \<Rightarrow> string list \<Rightarrow> string" where
  "join sep [] = []"
| "join sep [x] = x"
| "join sep (x # y # ys) = x @ sep @ join sep (y # ys)"

fun repr :: "pyval \<Rightarrow> string"
  and repr_list :: "pyval list \<Rightarrow> string list"
  and repr_items :: "(string \<times> pyval) list \<Rightarrow> string list" where
  "repr PNone = ''None''"
| "repr (PBool b) = (if b then ''True'' else ''False'')"
| "repr (PInt i) = str_int i"
| "repr (PStr s) = repr_str s"
| "repr (PList xs) = ''['' @ join '', '' (repr_list xs) @ '']''"
| "repr (PTuple xs) =
     (if length xs = 1 then ''('' @ join '', '' (repr_list xs) @ '',)''
      else ''('' @ join '', '' (repr_list xs) @ '')'')"
| "repr (PDict kvs) = ''{'' @ join '', '' (repr_items kvs) @ ''}''"
| "repr (PObj r) = r"
| "repr_list [] = []"
| "repr_list (x # xs) = repr x # repr_list xs"
| "repr_items [] = []"
| "repr_items ((k, v) # kvs) = (repr_str k @ '': '' @ repr v) # repr_items kvs"

definition str :: "pyval \<Rightarrow> string" where
  "str v = (case v of PStr s \<Rightarrow> s | _ \<Rightarrow> repr v)"

subsection \<open>Dictionary access\<close>

text \<open>
  \<^verbatim>\<open>d.get(key, default)\<close> and \<^verbatim>\<open>d[key] = value\<close> with a string key. Only a
  \<^verbatim>\<open>dict\<close> has \<^verbatim>\<open>get\<close>; item assignment with a string key fails with a
  \<^verbatim>\<open>TypeError\<close> on every other value of the model. Assignment to a key that is present
  keeps its position, a new key goes last: that is \<open>AList.update\<close>.
\<close>

fun py_get :: "pyval \<Rightarrow> string \<Rightarrow> pyval \<Rightarrow> error + pyval" where
  "py_get (PDict kvs) key dflt =
     Inr (case map_of kvs key of None \<Rightarrow> dflt | Some v \<Rightarrow> v)"
| "py_get _ key dflt = Inl AttributeError"

fun py_setitem :: "pyval \<Rightarrow> string \<Rightarrow> pyval \<Rightarrow> error + pyval" where
  "py_setitem (PDict kvs) key v = Inr (PDict (AList.update key v kvs))"
| "py_setitem _ key v = Inl TypeError"

section \<open>Files and the \<^verbatim>\<open>json\<close> module\<close>

text \<open>
  A file is known by what \<^verbatim>\<open>json.load\<close> makes of its text: the value it parses to, or
  a rejection. The file system maps a path to the content of its file; no entry means
  \<^verbatim>\<open>FileNotFoundError\<close> on opening for reading. Directories, permissions and open file
  descriptors are outside the model: opening for writing always succeeds on a string
  path, an integer path (a file descriptor) fails with \<^verbatim>\<open>OSError\<close>, and any other
  value is refused by \<^verbatim>\<open>open\<close> with a \<^verbatim>\<open>TypeError\<close>.
\<close>

datatype content = JsonText pyval | BadText

type_synonym fs = "string \<rightharpoonup> content"

fun py_open :: "pyval \<Rightarrow> error + string" where
  "py_open (PStr path) = Inr path"
| "py_open (PInt fd) = Inl OSError"
| "py_open (PBool fd) = Inl OSError"
| "py_open _ = Inl TypeError"

text \<open>
  \<open>json_dump v\<close> is the value that the text written by \<^verbatim>\<open>json.dump(v, f, indent=4)\<close>
  denotes, or the error the encoder raises: a tuple is written as an array, an object of
  another class is not serialisable.
\<close>

fun json_dump :: "pyval \<Rightarrow> error + pyval"
  and json_dump_list :: "pyval list \<Rightarrow> error + pyval list"
  and json_dump_items :: "(string \<times> pyval) list \<Rightarrow> error + (string \<times> pyval) list" where
  "json_dump PNone = Inr PNone"
| "json_dump (PBool b) = Inr (PBool b)"
| "json_dump (PInt i) = Inr (PInt i)"
| "json_dump (PStr s) = Inr (PStr s)"
| "json_dump (PList xs) =
     (case json_dump_list xs of Inl e \<Rightarrow> Inl e | Inr ys \<Rightarrow> Inr (PList ys))"
| "json_dump (PTuple xs) =
     (case json_dump_list xs of Inl e \<Rightarrow> Inl e | Inr ys \<Rightarrow> Inr (PList ys))"
| "json_dump (PDict kvs) =
     (case json_dump_items kvs of Inl e \<Rightarrow> Inl e | Inr jkvs \<Rightarrow> Inr (PDict jkvs))"
| "json_dump (PObj r) = Inl TypeError"
| "json_dump_list [] = Inr []"
| "json_dump_list (x # xs) =
     (case json_dump x of Inl e \<Rightarrow> Inl e
      | Inr y \<Rightarrow> (case json_dump_list xs of Inl e \<Rightarrow> Inl e | Inr ys \<Rightarrow> Inr (y # ys)))"
| "json_dump_items [] = Inr []"
| "json_dump_items ((k, v) # kvs) =
     (case json_dump v of Inl e \<Rightarrow> Inl e
      | Inr y \<Rightarrow>
          (case json_dump_items kvs of Inl e \<Rightarrow> Inl e | Inr jkvs \<Rightarrow> Inr ((k, y) # jkvs)))"

text \<open>
  The JSON-representable values: null, booleans, integers, strings, arrays and objects of
  such. These are the values \<^verbatim>\<open>json.load\<close> can return.
\<close>

fun json_native :: "pyval \<Rightarrow> bool"
  and json_native_list :: "pyval list \<Rightarrow> bool"
  and json_native_items :: "(string \<times> pyval) list \<Rightarrow> bool" where
  "json_native PNone = True"
| "json_native (PBool b) = True"
| "json_native (PInt i) = True"
| "json_native (PStr s) = True"
| "json_native (PList xs) = json_native_list xs"
| "json_native (PTuple xs) = False"
| "json_native (PDict kvs) = json_native_items kvs"
| "json_native (PObj r) = False"
| "json_native_list [] = True"
| "json_native_list (x # xs) = (json_native x \<and> json_native_list xs)"
| "json_native_items [] = True"
| "json_native_items ((k, v) # kvs) = (json_native v \<and> json_native_items kvs)"

text \<open>
  \<^verbatim>\<open>_load_records\<close>: a missing file is an empty dictionary; a text that is not JSON
  raises out of \<^verbatim>\<open>json.load\<close>.
\<close>

definition load_records :: "fs \<Rightarrow> pyval \<Rightarrow> error + pyval" where
  "load_records fs filename =
     (case py_open filename of
        Inl e \<Rightarrow> Inl e
      | Inr path \<Rightarrow>
          (case fs path of
             None \<Rightarrow> Inr (PDict [])
           | Some BadText \<Rightarrow> Inl JSONDecodeError
           | Some (JsonText v) \<Rightarrow> Inr v))"

text \<open>
  \<^verbatim>\<open>_save_records\<close>: \<^verbatim>\<open>open(filename, "w")\<close> empties the file before
  \<^verbatim>\<open>json.dump\<close> starts to write, and \<^verbatim>\<open>json.dump\<close> writes piece by piece; when the
  encoder raises, the file is left with the pieces written so far, an incomplete text.
\<close>

definition save_records :: "fs \<Rightarrow> pyval \<Rightarrow> pyval \<Rightarrow> fs \<times> (error + unit)" where
  "save_records fs filename records =
     (case py_open filename of
        Inl e \<Rightarrow> (fs, Inl e)
      | Inr path \<Rightarrow>
          (case json_dump records of
             Inl e \<Rightarrow> (fs(path \<mapsto> BadText), Inl e)
           | Inr j \<Rightarrow> (fs(path \<mapsto> JsonText j), Inr ())))"

section \<open>Descriptors and instances\<close>

text \<open>
  An instance is its class's \<^verbatim>\<open>__dict__\<close>, in declaration order, and its own
  \<^verbatim>\<open>__dict__\<close>. Of a class attribute only its kind matters: an instance of
  \<^verbatim>\<open>JsonFilename\<close>, of \<^verbatim>\<open>RecordId\<close>, of \<^verbatim>\<open>Field\<close>, or anything else. A descriptor
  made in the class body is told its attribute name by \<^verbatim>\<open>__set_name__\<close>, so the name
  under which it is found in the class is the name it uses in the instance.
\<close>

datatype attr_value = JsonFilename | RecordId | FieldAttr | Other

record inst =
  class_dict :: "(string \<times> attr_value) list"
  inst_dict :: "string \<rightharpoonup> pyval"

definition IdentityDescriptor_set :: "string \<Rightarrow> inst \<Rightarrow> pyval \<Rightarrow> inst" where
  "IdentityDescriptor_set name instance v =
     instance\<lparr>inst_dict := (inst_dict instance)(name \<mapsto> v)\<rparr>"

definition IdentityDescriptor_get :: "string \<Rightarrow> inst \<Rightarrow> pyval" where
  "IdentityDescriptor_get name instance =
     (case inst_dict instance name of None \<Rightarrow> PNone | Some v \<Rightarrow> v)"

fun json_filename_loop :: "(string \<times> attr_value) list \<Rightarrow> inst \<Rightarrow> pyval" where
  "json_filename_loop [] instance = PNone"
| "json_filename_loop ((attr_name, attr_value) # items) instance =
     (if attr_value = JsonFilename then IdentityDescriptor_get attr_name instance
      else json_filename_loop items instance)"

definition json_filename :: "inst \<Rightarrow> pyval" where
  "json_filename instance = json_filename_loop (class_dict instance) instance"

fun record_id_loop :: "(string \<times> attr_value) list \<Rightarrow> inst \<Rightarrow> string option" where
  "record_id_loop [] instance = None"
| "record_id_loop ((attr_name, attr_value) # items) instance =
     (if attr_value = RecordId then Some (str (IdentityDescriptor_get attr_name instance))
      else record_id_loop items instance)"

definition record_id :: "inst \<Rightarrow> string option" where
  "record_id instance = record_id_loop (class_dict instance) instance"

section \<open>The persisted field\<close>

text \<open>
  \<^verbatim>\<open>Field.__get__\<close> and \<^verbatim>\<open>Field.__set__\<close>. The guard
  \<^verbatim>\<open>_json_filename(instance) and _record_id(instance)\<close> holds when the file name is a
  true value and the record identifier is a string that is not empty.
\<close>

definition Field_get :: "fs \<Rightarrow> string \<Rightarrow> inst \<Rightarrow> error + pyval" where
  "Field_get fs name instance =
     (case record_id instance of
        None \<Rightarrow> Inr PNone
      | Some rid \<Rightarrow>
          if truthy (json_filename instance) \<and> rid \<noteq> [] then
            (case load_records fs (json_filename instance) of
               Inl e \<Rightarrow> Inl e
             | Inr all_records \<Rightarrow>
                 (case py_get all_records rid (PDict []) of
                    Inl e \<Rightarrow> Inl e
                  | Inr record \<Rightarrow> py_get record name PNone))
          else Inr PNone)"

definition Field_set :: "fs \<Rightarrow> string \<Rightarrow> inst \<Rightarrow> pyval \<Rightarrow> fs \<times> (error + unit)" where
  "Field_set fs name instance v =
     (case record_id instance of
        None \<Rightarrow> (fs, Inr ())
      | Some rid \<Rightarrow>
          if truthy (json_filename instance) \<and> rid \<noteq> [] then
            (case load_records fs (json_filename instance) of
               Inl e \<Rightarrow> (fs, Inl e)
             | Inr all_records \<Rightarrow>
                 (case py_get all_records rid (PDict []) of
                    Inl e \<Rightarrow> (fs, Inl e)
                  | Inr record \<Rightarrow>
                      (case py_setitem record name v of
                         Inl e \<Rightarrow> (fs, Inl e)
                       | Inr record' \<Rightarrow>
                           (case py_setitem all_records rid record' of
                              Inl e \<Rightarrow> (fs, Inl e)
                            | Inr all_records' \<Rightarrow>
                                save_records fs (json_filename instance) all_records'))))
          else (fs, Inr ()))"

text \<open>The class \<^verbatim>\<open>Person\<close> of the module and its constructor.\<close>

definition Person_class :: "(string \<times> attr_value) list" where
  "Person_class =
     [(''filename'', JsonFilename), (''person_id'', RecordId),
      (''name'', FieldAttr), (''email'', FieldAttr), (''age'', FieldAttr),
      (''__init__'', Other)]"

definition Person :: "pyval \<Rightarrow> pyval \<Rightarrow> inst" where
  "Person filename person_id =
     IdentityDescriptor_set ''person_id''
       (IdentityDescriptor_set ''filename''
          \<lparr>class_dict = Person_class, inst_dict = Map.empty\<rparr> filename)
       person_id"

section \<open>Documents\<close>

text \<open>
  The data model of the store: a document is a JSON object whose members are the records,
  each a JSON object of fields. \<open>store_ok fs loc\<close> says that the file at \<open>loc\<close> is
  missing or holds such a document; \<open>record_of\<close> and \<open>field_of\<close> read the persisted
  document directly, \<open>doc_items\<close> and \<open>fields\<close> give the members of the document and
  of one record (none when there is no such document or record).
\<close>

fun records :: "(string \<times> pyval) list \<Rightarrow> bool" where
  "records [] = True"
| "records ((k, PDict r) # kvs) = records kvs"
| "records ((k, _) # kvs) = False"

definition store_ok :: "fs \<Rightarrow> string \<Rightarrow> bool" where
  "store_ok fs loc =
     (case fs loc of
        None \<Rightarrow> True
      | Some BadText \<Rightarrow> False
      | Some (JsonText v) \<Rightarrow>
          (case v of PDict d \<Rightarrow> json_native_items d \<and> records d | _ \<Rightarrow> False))"

definition record_of :: "fs \<Rightarrow> string \<Rightarrow> string \<Rightarrow> pyval option" where
  "record_of fs loc key =
     (case fs loc of Some (JsonText (PDict d)) \<Rightarrow> map_of d key | _ \<Rightarrow> None)"

definition field_of :: "fs \<Rightarrow> string \<Rightarrow> string \<Rightarrow> string \<Rightarrow> pyval option" where
  "field_of fs loc key F =
     (case record_of fs loc key of Some (PDict r) \<Rightarrow> map_of r F | _ \<Rightarrow> None)"

definition doc_items :: "fs \<Rightarrow> string \<Rightarrow> (string \<times> pyval) list" where
  "doc_items fs loc = (case fs loc of Some (JsonText (PDict d)) \<Rightarrow> d | _ \<Rightarrow> [])"

definition fields :: "(string \<times> pyval) list \<Rightarrow> string \<Rightarrow> (string \<times> pyval) list" where
  "fields d key = (case map_of d key of Some (PDict r) \<Rightarrow> r | _ \<Rightarrow> [])"

text \<open>The store that the module's \<^verbatim>\<open>__main__\<close> block leaves behind.\<close>

definition people :: fs where
  "people =
     [''../datafiles/people.json'' \<mapsto>
        JsonText (PDict
          [(''person-1'', PDict [(''name'', PStr ''James Schue''),
                                 (''email'', PStr ''jschue@aol.com''), (''age'', PInt 42)]),
           (''person-2'', PDict [(''name'', PStr ''Patricia Kaike''),
                                 (''email'', PStr ''fastbaker91@gmail.com''), (''age'', PInt 36)])])]"

text \<open>The store after the first assignment of that block, \<^verbatim>\<open>name\<close> of \<^verbatim>\<open>person-1\<close>.\<close>

definition james :: fs where
  "james =
     [''../datafiles/people.json'' \<mapsto>
        JsonText (PDict [(''person-1'', PDict [(''name'', PStr ''James Schue'')])])]"

text \<open>
  A class that tags two attributes as the file name and two as the record identifier, and
  an instance of it.
\<close>

definition Mirror_class :: "(string \<times> attr_value) list" where
  "Mirror_class =
     [(''__module__'', Other), (''primary'', JsonFilename), (''backup'', JsonFilename),
      (''uid'', RecordId), (''alias'', RecordId), (''title'', FieldAttr)]"

definition mirror :: inst where
  "mirror =
     \<lparr>class_dict = Mirror_class,
      inst_dict = [''primary'' \<mapsto> PStr ''a.json'', ''backup'' \<mapsto> PStr ''b.json'',
                   ''uid'' \<mapsto> PInt 1, ''alias'' \<mapsto> PStr ''one'']\<rparr>"

section \<open>Properties of the encoder and of dictionaries\<close>

lemma json_dump_native: "json_native v \<Longrightarrow> json_dump v = Inr v"
  and json_dump_list_native: "json_native_list xs \<Longrightarrow> json_dump_list xs = Inr xs"
  and json_dump_items_native: "json_native_items kvs \<Longrightarrow> json_dump_items kvs = Inr kvs"
  by (induction v and xs and kvs rule: json_dump_json_dump_list_json_dump_items.induct) simp_all

lemma json_dump_result_native: "json_dump v = Inr w \<Longrightarrow> json_native w"
  and json_dump_list_result_native: "json_dump_list xs = Inr ys \<Longrightarrow> json_native_list ys"
  and json_dump_items_result_native:
    "json_dump_items kvs = Inr out \<Longrightarrow> json_native_items out"
  by (induction v and xs and kvs arbitrary: w and ys and out
      rule: json_dump_json_dump_list_json_dump_items.induct)
     (auto split: sum.splits)

lemma json_dump_error: "json_dump v = Inl e \<Longrightarrow> e = TypeError"
  and json_dump_list_error: "json_dump_list xs = Inl e \<Longrightarrow> e = TypeError"
  and json_dump_items_error: "json_dump_items kvs = Inl e \<Longrightarrow> e = TypeError"
  by (induction v and xs and kvs arbitrary: e and e and e
      rule: json_dump_json_dump_list_json_dump_items.induct)
     (auto split: sum.splits)

lemma json_dump_items_update:
  "json_dump_items kvs = Inr out \<Longrightarrow> json_dump v = Inr j \<Longrightarrow>
   json_dump_items (AList.update k v kvs) = Inr (AList.update k j out)"
  by (induction kvs arbitrary: out) (auto split: sum.splits)

lemma json_dump_items_update_inv:
  "json_dump_items (AList.update k v kvs) = Inr out \<Longrightarrow>
   \<exists>j. json_dump v = Inr j \<and> map_of out k = Some j \<and> AList.update k j out = out"
  by (induction kvs arbitrary: out) (auto split: sum.splits if_splits)

lemma json_native_items_map_of:
  "json_native_items kvs \<Longrightarrow> map_of kvs k = Some v \<Longrightarrow> json_native v"
  by (induction kvs) (auto split: if_splits)

lemma json_native_items_update:
  "json_native_items kvs \<Longrightarrow> json_native v \<Longrightarrow> json_native_items (AList.update k v kvs)"
  by (induction kvs) auto

lemma records_map_of: "records d \<Longrightarrow> map_of d k = Some v \<Longrightarrow> \<exists>r. v = PDict r"
  by (induction d rule: records.induct) (auto split: if_splits)

lemma records_update: "records d \<Longrightarrow> records (AList.update k (PDict r) d)"
  by (induction d rule: records.induct) auto

lemma json_native_fields: "json_native_items d \<Longrightarrow> json_native_items (fields d key)"
  by (auto simp: fields_def split: option.splits pyval.splits dest: json_native_items_map_of)

lemma py_get_record:
  "records d \<Longrightarrow> py_get (PDict d) key (PDict []) = Inr (PDict (fields d key))"
  by (auto simp: fields_def split: option.splits pyval.splits dest: records_map_of)

lemma Field_get_bound:
  assumes "json_filename inst = PStr loc" "loc \<noteq> []" "record_id inst = Some key" "key \<noteq> []"
  shows "Field_get fs F inst =
           (case fs loc of
              None \<Rightarrow> Inr PNone
            | Some BadText \<Rightarrow> Inl JSONDecodeError
            | Some (JsonText D) \<Rightarrow>
                (case py_get D key (PDict []) of
                   Inl e \<Rightarrow> Inl e
                 | Inr r \<Rightarrow> py_get r F PNone))"
  using assms by (simp add: Field_get_def load_records_def split: option.splits content.splits)

lemma load_records_ok:
  "store_ok fs loc \<Longrightarrow> load_records fs (PStr loc) = Inr (PDict (doc_items fs loc))"
  by (auto simp: load_records_def store_ok_def doc_items_def
           split: option.splits content.splits pyval.splits)

lemma store_ok_items:
  "store_ok fs loc \<Longrightarrow> json_native_items (doc_items fs loc) \<and> records (doc_items fs loc)"
  by (auto simp: store_ok_def doc_items_def split: option.splits content.splits pyval.splits)

lemma Field_get_ok:
  assumes "json_filename inst = PStr loc" "loc \<noteq> []" "record_id inst = Some key" "key \<noteq> []"
    and "store_ok fs loc"
  shows "Field_get fs F inst =
           Inr (case map_of (fields (doc_items fs loc) key) F of None \<Rightarrow> PNone | Some v \<Rightarrow> v)"
proof -
  have recs: "records (doc_items fs loc)"
    using store_ok_items [OF assms(5)] by simp
  have "Field_get fs F inst = py_get (PDict (fields (doc_items fs loc) key)) F PNone"
    using assms(1-4)
    by (simp add: Field_get_def load_records_ok [OF assms(5)] py_get_record [OF recs]
             del: py_get.simps)
  then show ?thesis by simp
qed

lemma Field_set_ok:
  assumes "json_filename inst = PStr loc" "loc \<noteq> []" "record_id inst = Some key" "key \<noteq> []"
    and "store_ok fs loc" and "json_dump V = Inr J"
  shows "Field_set fs F inst V =
           (fs(loc \<mapsto> JsonText (PDict (AList.update key
                  (PDict (AList.update F J (fields (doc_items fs loc) key))) (doc_items fs loc)))),
            Inr ())"
proof -
  let ?d = "doc_items fs loc"
  have nat: "json_native_items ?d" and recs: "records ?d"
    using store_ok_items [OF assms(5)] by simp_all
  have r: "json_dump_items (AList.update F V (fields ?d key)) =
             Inr (AList.update F J (fields ?d key))"
    using json_dump_items_update [OF json_dump_items_native [OF json_native_fields [OF nat]] assms(6)]
    by simp
  have d: "json_dump_items (AList.update key (PDict (AList.update F V (fields ?d key))) ?d) =
             Inr (AList.update key (PDict (AList.update F J (fields ?d key))) ?d)"
    by (rule json_dump_items_update [OF json_dump_items_native [OF nat]]) (simp add: r)
  have "Field_set fs F inst V =
          save_records fs (PStr loc)
            (PDict (AList.update key (PDict (AList.update F V (fields ?d key))) ?d))"
    using assms(1-4)
    by (simp add: Field_set_def load_records_ok [OF assms(5)] py_get_record [OF recs]
             del: py_get.simps)
  then show ?thesis
    by (simp add: save_records_def d)
qed

text \<open>A successful write leaves a document behind: \<open>store_ok\<close> is an invariant.\<close>

lemma Field_set_store_ok:
  assumes "json_filename inst = PStr loc" "loc \<noteq> []" "record_id inst = Some key" "key \<noteq> []"
    and "store_ok fs loc" and "json_dump V = Inr J"
  shows "store_ok (fst (Field_set fs F inst V)) loc"
proof -
  let ?d = "doc_items fs loc"
  have nat: "json_native_items ?d" and recs: "records ?d"
    using store_ok_items [OF assms(5)] by simp_all
  have "json_native_items (AList.update F J (fields ?d key))"
    by (rule json_native_items_update [OF json_native_fields [OF nat]
          json_dump_result_native [OF assms(6)]])
  then have "json_native_items (AList.update key (PDict (AList.update F J (fields ?d key))) ?d)"
    by (intro json_native_items_update [OF nat]) simp
  then show ?thesis
    by (simp add: Field_set_ok [OF assms] store_ok_def records_update [OF recs])
qed

lemmas Person_simps =
  json_filename_def record_id_def Person_def Person_class_def
  IdentityDescriptor_set_def IdentityDescriptor_get_def str_def

section \<open>Properties of the descriptors and of the field\<close>

lemma IdentityDescriptor_get_set:
  "IdentityDescriptor_get n (IdentityDescriptor_set m inst v) =
     (if n = m then v else IdentityDescriptor_get n inst)"
  by (simp add: IdentityDescriptor_get_def IdentityDescriptor_set_def)

lemma json_filename_loop_first:
  "JsonFilename \<notin> snd ` set pre \<Longrightarrow>
   json_filename_loop (pre @ (n, JsonFilename) # post) inst = IdentityDescriptor_get n inst"
  by (induction pre) auto

lemma record_id_loop_first:
  "RecordId \<notin> snd ` set pre \<Longrightarrow>
   record_id_loop (pre @ (n, RecordId) # post) inst = Some (str (IdentityDescriptor_get n inst))"
  by (induction pre) auto

lemma json_filename_loop_found:
  "json_filename_loop items inst = PNone \<or>
   (\<exists>n. (n, JsonFilename) \<in> set items \<and>
        json_filename_loop items inst = IdentityDescriptor_get n inst)"
proof (induction items)
  case Nil
  then show ?case by simp
next
  case (Cons a items)
  obtain n k where a: "a = (n, k)" by (cases a)
  show ?case
  proof (cases "k = JsonFilename")
    case True
    then have "(n, JsonFilename) \<in> set (a # items) \<and>
               json_filename_loop (a # items) inst = IdentityDescriptor_get n inst"
      by (simp add: a)
    then show ?thesis by blast
  next
    case False
    then have "json_filename_loop (a # items) inst = json_filename_loop items inst"
      by (simp add: a)
    with Cons show ?thesis by auto
  qed
qed

lemma record_id_loop_found:
  "record_id_loop items inst = None \<or>
   (\<exists>n. (n, RecordId) \<in> set items \<and>
        record_id_loop items inst = Some (str (IdentityDescriptor_get n inst)))"
proof (induction items)
  case Nil
  then show ?case by simp
next
  case (Cons a items)
  obtain n k where a: "a = (n, k)" by (cases a)
  show ?case
  proof (cases "k = RecordId")
    case True
    then have "(n, RecordId) \<in> set (a # items) \<and>
               record_id_loop (a # items) inst = Some (str (IdentityDescriptor_get n inst))"
      by (simp add: a)
    then show ?thesis by blast
  next
    case False
    then have "record_id_loop (a # items) inst = record_id_loop items inst"
      by (simp add: a)
    with Cons show ?thesis by auto
  qed
qed

lemma Field_cong:
  "json_filename a = json_filename b \<Longrightarrow> record_id a = record_id b \<Longrightarrow>
   Field_get fs F a = Field_get fs F b \<and> Field_set fs F a V = Field_set fs F b V"
  by (simp add: Field_get_def Field_set_def cong: sum.case_cong option.case_cong if_cong)

lemma Field_set_unbound:
  "\<not> truthy (json_filename inst) \<or> record_id inst = None \<or> record_id inst = Some [] \<Longrightarrow>
   Field_set fs F inst V = (fs, Inr ())"
  by (auto simp: Field_set_def split: option.splits)

lemma Field_get_unbound:
  "\<not> truthy (json_filename inst) \<or> record_id inst = None \<or> record_id inst = Some [] \<Longrightarrow>
   Field_get fs F inst = Inr PNone"
  by (auto simp: Field_get_def split: option.splits)

lemma Field_set_bound:
  assumes "json_filename inst = PStr loc" "loc \<noteq> []" "record_id inst = Some key" "key \<noteq> []"
  shows "Field_set fs F inst V =
           (case load_records fs (PStr loc) of
              Inl e \<Rightarrow> (fs, Inl e)
            | Inr all_records \<Rightarrow>
                (case py_get all_records key (PDict []) of
                   Inl e \<Rightarrow> (fs, Inl e)
                 | Inr record \<Rightarrow>
                     (case py_setitem record F V of
                        Inl e \<Rightarrow> (fs, Inl e)
                      | Inr record' \<Rightarrow>
                          (case py_setitem all_records key record' of
                             Inl e \<Rightarrow> (fs, Inl e)
                           | Inr all_records' \<Rightarrow>
                               save_records fs (PStr loc) all_records'))))"
  using assms by (simp add: Field_set_def split: sum.splits)

lemma py_open_str: "py_open v = Inr path \<Longrightarrow> v = PStr path"
  by (cases v) auto

lemma py_get_Inr: "py_get D key dflt = Inr r \<Longrightarrow> \<exists>d. D = PDict d"
  by (cases D) auto

lemma py_setitem_Inr: "py_setitem r F V = Inr r' \<Longrightarrow> \<exists>kvs. r = PDict kvs \<and> r' = PDict (AList.update F V kvs)"
  by (cases r) auto

text \<open>Every write either leaves the file system alone or reaches \<open>save_records\<close>.\<close>

lemma Field_set_cases:
  "fst (Field_set fs F inst V) = fs \<or>
   (\<exists>loc key d r. json_filename inst = PStr loc \<and> loc \<noteq> [] \<and> record_id inst = Some key \<and>
      key \<noteq> [] \<and> load_records fs (PStr loc) = Inr (PDict d) \<and>
      py_get (PDict d) key (PDict []) = Inr (PDict r) \<and>
      Field_set fs F inst V =
        save_records fs (PStr loc)
          (PDict (AList.update key (PDict (AList.update F V r)) d)))"
proof (cases "truthy (json_filename inst) \<and> (\<exists>key. record_id inst = Some key \<and> key \<noteq> [])")
  case False
  then have "Field_set fs F inst V = (fs, Inr ())"
    by (intro Field_set_unbound) (cases "record_id inst"; auto)
  then show ?thesis by simp
next
  case True
  then obtain key where key: "record_id inst = Some key" "key \<noteq> []" and tr: "truthy (json_filename inst)"
    by blast
  show ?thesis
  proof (cases "py_open (json_filename inst)")
    case (Inl e)
    then have "Field_set fs F inst V = (fs, Inl e)"
      using key tr by (simp add: Field_set_def load_records_def)
    then show ?thesis by simp
  next
    case (Inr loc)
    then have loc: "json_filename inst = PStr loc" by (rule py_open_str)
    with tr have ne: "loc \<noteq> []" by simp
    note unf = Field_set_bound [OF loc ne key, of fs F V]
    show ?thesis
    proof (cases "load_records fs (PStr loc)")
      case (Inl e)
      then show ?thesis by (simp add: unf)
    next
      case D: (Inr D)
      show ?thesis
      proof (cases "py_get D key (PDict [])")
        case (Inl e)
        then show ?thesis by (simp add: unf D)
      next
        case R: (Inr rcd)
        then obtain d where d: "D = PDict d" using py_get_Inr by blast
        show ?thesis
        proof (cases "py_setitem rcd F V")
          case (Inl e)
          then show ?thesis by (simp add: unf D R del: py_get.simps)
        next
          case (Inr rcd')
          then obtain r where r: "rcd = PDict r" "rcd' = PDict (AList.update F V r)"
            using py_setitem_Inr by blast
          have "Field_set fs F inst V =
                  save_records fs (PStr loc) (PDict (AList.update key (PDict (AList.update F V r)) d))"
            using D R Inr r d by (simp add: unf del: py_get.simps)
          then show ?thesis
            using loc ne key D R d r by blast
        qed
      qed
    qed
  qed
qed

lemma Field_set_on_BadText:
  assumes "json_filename inst = PStr loc" "loc \<noteq> []" "record_id inst = Some key" "key \<noteq> []"
    and "fs loc = Some BadText"
  shows "Field_set fs F inst V = (fs, Inl JSONDecodeError)"
  using assms(5) by (simp add: Field_set_bound [OF assms(1-4)] load_records_def)

section \<open>The claims\<close>





text \<open>
  C3 (unset identity). The claim asks that a write through an entity whose identity is
  unset touches no file. \<^verbatim>\<open>_record_id\<close> applies \<^verbatim>\<open>str\<close> before the guard tests the
  result, and \<^verbatim>\<open>str(None)\<close> is the non-empty string \<^verbatim>\<open>"None"\<close>: a \<^verbatim>\<open>Person\<close> built
  without a \<^verbatim>\<open>person_id\<close> passes the guard, and its write creates the file with a record
  under the key \<^verbatim>\<open>"None"\<close>.
\<close>

theorem unset_identity_write_persists:
  "record_id (Person (PStr ''../datafiles/people.json'') PNone) = Some ''None'' \<and>
   Field_set Map.empty ''name'' (Person (PStr ''../datafiles/people.json'') PNone)
       (PStr ''James Schue'') =
     ([''../datafiles/people.json'' \<mapsto>
         JsonText (PDict [(''None'', PDict [(''name'', PStr ''James Schue'')])])],
      Inr ())"
  by (simp add: Field_set_def load_records_def save_records_def Person_simps)



text \<open>
  C5 (absent field), as stated: the value read for a field that was never written is
  not null and differs from what a field set to null reads as. In the code both reads
  return \<^verbatim>\<open>None\<close>: \<^verbatim>\<open>person-1\<close> has no field \<^verbatim>\<open>email\<close> yet and reads \<^verbatim>\<open>None\<close>; after
  \<^verbatim>\<open>None\<close> is written to it the field is present and reads \<^verbatim>\<open>None\<close> again.
\<close>

theorem absent_field_is_null_counterexample:
  "field_of james ''../datafiles/people.json'' ''person-1'' ''email'' = None \<and>
   Field_get james ''email'' (Person (PStr ''../datafiles/people.json'') (PStr ''person-1''))
     = Inr PNone \<and>
   field_of
     (fst (Field_set james ''email''
             (Person (PStr ''../datafiles/people.json'') (PStr ''person-1'')) PNone))
     ''../datafiles/people.json'' ''person-1'' ''email'' = Some PNone \<and>
   Field_get
     (fst (Field_set james ''email''
             (Person (PStr ''../datafiles/people.json'') (PStr ''person-1'')) PNone))
     ''email'' (Person (PStr ''../datafiles/people.json'') (PStr ''person-1''))
     = Inr PNone"
  by (simp add: Field_get_def Field_set_def load_records_def save_records_def Person_simps
        james_def field_of_def record_of_def)

text \<open>
  C5, amended. A read of a field that was never written on an existing record raises
  no exception and returns \<^verbatim>\<open>None\<close>, the value that the same read returns once
  \<^verbatim>\<open>None\<close> has been written to the field.
\<close>

theorem never_written_field_reads_None:
  assumes "json_filename inst = PStr loc" "record_id inst = Some key"
    and "loc \<noteq> []" "key \<noteq> []" "store_ok fs loc"
    and "record_of fs loc key = Some (PDict r)" "field_of fs loc key F = None"
  shows "Field_get fs F inst = Inr PNone \<and>
         field_of (fst (Field_set fs F inst PNone)) loc key F = Some PNone \<and>
         Field_get (fst (Field_set fs F inst PNone)) F inst = Inr PNone"
proof -
  let ?d = "doc_items fs loc"
  let ?d' = "AList.update key (PDict (AList.update F PNone (fields ?d key))) ?d"
  have d: "map_of ?d key = Some (PDict r)"
    using assms(5,6)
    by (auto simp: record_of_def doc_items_def store_ok_def
             split: option.splits content.splits pyval.splits)
  then have r: "fields ?d key = r"
    by (simp add: fields_def)
  have "map_of r F = None"
    using assms(6,7) by (simp add: field_of_def)
  then have 1: "Field_get fs F inst = Inr PNone"
    by (simp add: Field_get_ok [OF assms(1,3,2,4,5)] r)
  have w: "Field_set fs F inst PNone = (fs(loc \<mapsto> JsonText (PDict ?d')), Inr ())"
    by (rule Field_set_ok [OF assms(1,3,2,4,5)]) simp
  have 2: "field_of (fs(loc \<mapsto> JsonText (PDict ?d'))) loc key F = Some PNone"
    by (simp add: field_of_def record_of_def update_conv')
  have 3: "Field_get (fs(loc \<mapsto> JsonText (PDict ?d'))) F inst = Inr PNone"
    by (simp add: Field_get_bound [OF assms(1,3,2,4)] update_conv')
  show ?thesis
    by (simp add: 1 w 2 3)
qed

theorem never_written_field_reads_None_witness:
  "store_ok james ''../datafiles/people.json'' \<and>
   field_of james ''../datafiles/people.json'' ''person-1'' ''age'' = None \<and>
   Field_get james ''age'' (Person (PStr ''../datafiles/people.json'') (PStr ''person-1''))
     = Inr PNone \<and>
   Field_get
     (fst (Field_set james ''age''
             (Person (PStr ''../datafiles/people.json'') (PStr ''person-1'')) PNone))
     ''age'' (Person (PStr ''../datafiles/people.json'') (PStr ''person-1''))
     = Inr PNone"
proof -
  have ok: "store_ok james ''../datafiles/people.json''"
    by (simp add: store_ok_def james_def)
  have f: "field_of james ''../datafiles/people.json'' ''person-1'' ''age'' = None"
    by (simp add: field_of_def record_of_def james_def)
  have r: "record_of james ''../datafiles/people.json'' ''person-1'' =
             Some (PDict [(''name'', PStr ''James Schue'')])"
    by (simp add: record_of_def james_def)
  show ?thesis
    using ok f never_written_field_reads_None
      [of "Person (PStr ''../datafiles/people.json'') (PStr ''person-1'')"
        "''../datafiles/people.json''" "''person-1''" james _ "''age''", OF _ _ _ _ ok r f]
    by (simp add: Person_simps)
qed






text \<open>
  C8 (idempotence). Writing the same value to the same field twice in a row leaves
  the file system exactly as writing it once does, whatever the starting state, the
  entity and the value.
\<close>

theorem write_twice:
  "fst (Field_set (fst (Field_set fs F inst V)) F inst V) = fst (Field_set fs F inst V)"
proof -
  from Field_set_cases [of fs F inst V]
  consider (same) "fst (Field_set fs F inst V) = fs"
    | (save) loc key d r where "json_filename inst = PStr loc" "loc \<noteq> []"
        "record_id inst = Some key" "key \<noteq> []" "load_records fs (PStr loc) = Inr (PDict d)"
        "py_get (PDict d) key (PDict []) = Inr (PDict r)"
        "Field_set fs F inst V =
           save_records fs (PStr loc) (PDict (AList.update key (PDict (AList.update F V r)) d))"
    by blast
  then show ?thesis
  proof cases
    case same
    then show ?thesis by simp
  next
    case save
    note bound = save(1-4)
    let ?doc = "AList.update key (PDict (AList.update F V r)) d"
    show ?thesis
    proof (cases "json_dump_items ?doc")
      case (Inl e)
      then have 1: "Field_set fs F inst V = (fs(loc \<mapsto> BadText), Inl e)"
        by (simp add: save(7) save_records_def)
      have "Field_set (fs(loc \<mapsto> BadText)) F inst V = (fs(loc \<mapsto> BadText), Inl JSONDecodeError)"
        by (rule Field_set_on_BadText [OF bound]) simp
      with 1 show ?thesis by simp
    next
      case (Inr out)
      then have 1: "Field_set fs F inst V = (fs(loc \<mapsto> JsonText (PDict out)), Inr ())"
        by (simp add: save(7) save_records_def)
      from json_dump_items_update_inv [OF Inr]
      obtain j where j: "json_dump (PDict (AList.update F V r)) = Inr j"
        "map_of out key = Some j" "AList.update key j out = out"
        by blast
      from j(1) obtain r' where r': "j = PDict r'" "json_dump_items (AList.update F V r) = Inr r'"
        by (auto split: sum.splits)
      from json_dump_items_update_inv [OF r'(2)]
      obtain jv where jv: "json_dump V = Inr jv" "AList.update F jv r' = r'"
        by blast
      have out: "json_dump_items out = Inr out"
        by (rule json_dump_items_native [OF json_dump_items_result_native [OF Inr]])
      have rr: "json_dump_items r' = Inr r'"
        by (rule json_dump_items_native [OF json_dump_items_result_native [OF r'(2)]])
      have "json_dump_items (AList.update F V r') = Inr r'"
        using json_dump_items_update [OF rr jv(1), of F] jv(2) by simp
      then have "json_dump (PDict (AList.update F V r')) = Inr (PDict r')"
        by simp
      from json_dump_items_update [OF out this, of key]
      have 2: "json_dump_items (AList.update key (PDict (AList.update F V r')) out) = Inr out"
        using j(3) r'(1) by simp
      have "Field_set (fs(loc \<mapsto> JsonText (PDict out))) F inst V =
              (fs(loc \<mapsto> JsonText (PDict out)), Inr ())"
        using j(2) r'(1)
        by (simp add: Field_set_bound [OF bound] load_records_def save_records_def 2)
      with 1 show ?thesis by simp
    qed
  qed
qed


text \<open>
  C10 (first tagged attribute). When the class dictionary holds a
  \<^verbatim>\<open>JsonFilename\<close> (a \<^verbatim>\<open>RecordId\<close>) at some attribute and none before it, resolution
  uses that attribute whatever follows it, and every read and write behaves as for a
  class that declares those two attributes only.
\<close>

theorem first_tagged_attribute_wins:
  assumes "class_dict inst = pre @ (ln, JsonFilename) # post" "JsonFilename \<notin> snd ` set pre"
    and "class_dict inst = pre' @ (idn, RecordId) # post'" "RecordId \<notin> snd ` set pre'"
  shows "json_filename inst = IdentityDescriptor_get ln inst \<and>
         record_id inst = Some (str (IdentityDescriptor_get idn inst)) \<and>
         Field_get fs F inst =
           Field_get fs F (inst\<lparr>class_dict := [(ln, JsonFilename), (idn, RecordId)]\<rparr>) \<and>
         Field_set fs F inst V =
           Field_set fs F (inst\<lparr>class_dict := [(ln, JsonFilename), (idn, RecordId)]\<rparr>) V"
proof -
  let ?i = "inst\<lparr>class_dict := [(ln, JsonFilename), (idn, RecordId)]\<rparr>"
  have f: "json_filename inst = IdentityDescriptor_get ln inst"
    by (simp add: json_filename_def assms(1) json_filename_loop_first [OF assms(2)])
  have r: "record_id inst = Some (str (IdentityDescriptor_get idn inst))"
    by (simp add: record_id_def assms(3) record_id_loop_first [OF assms(4)])
  have fi: "json_filename ?i = IdentityDescriptor_get ln inst"
    by (simp add: json_filename_def IdentityDescriptor_get_def)
  have ri: "record_id ?i = Some (str (IdentityDescriptor_get idn inst))"
    by (simp add: record_id_def IdentityDescriptor_get_def)
  have "json_filename inst = json_filename ?i" "record_id inst = record_id ?i"
    by (simp_all only: f r fi ri)
  from Field_cong [OF this, of fs F V] f r show ?thesis
    by simp
qed

theorem first_tagged_attribute_wins_witness:
  "json_filename mirror = PStr ''a.json'' \<and> record_id mirror = Some ''1'' \<and>
   Field_set Map.empty ''title'' mirror (PStr ''x'') =
     ([''a.json'' \<mapsto> JsonText (PDict [(''1'', PDict [(''title'', PStr ''x'')])])], Inr ())"
proof -
  have c1: "class_dict mirror = [(''__module__'', Other)] @ (''primary'', JsonFilename) #
      [(''backup'', JsonFilename), (''uid'', RecordId), (''alias'', RecordId),
       (''title'', FieldAttr)]"
    by (simp add: mirror_def Mirror_class_def)
  have c2: "class_dict mirror =
      [(''__module__'', Other), (''primary'', JsonFilename), (''backup'', JsonFilename)] @
      (''uid'', RecordId) # [(''alias'', RecordId), (''title'', FieldAttr)]"
    by (simp add: mirror_def Mirror_class_def)
  have g: "IdentityDescriptor_get ''primary'' mirror = PStr ''a.json''"
    "str (IdentityDescriptor_get ''uid'' mirror) = ''1''"
    by (simp_all add: mirror_def IdentityDescriptor_get_def str_def str_int_def digits.simps)
  from first_tagged_attribute_wins [OF c1 _ c2, of Map.empty "''title''" "PStr ''x''"]
  have "json_filename mirror = PStr ''a.json'' \<and> record_id mirror = Some ''1''"
    using g by simp
  then show ?thesis
    by (simp add: Field_set_def load_records_def save_records_def)
qed

end
